theory Spec2Isabelle
  imports Main "HOL-Library.AList"
begin

section \<open>The test server \<open>simple_mcp_server.py\<close>\<close>

text \<open>
  The module defines two tool functions and registers them with a server object:
  \<^verbatim>\<open>
  mcp = FastMCP("TestServer")

  @mcp.tool()
  def echo(message: str) -> str:
      return f"Echo: {message}"

  @mcp.tool()
  def add(a: int, b: int) -> int:
      return a + b
  \<close>
  Python's \<open>str\<close> is modelled as \<open>string\<close> and Python's unbounded \<open>int\<close> as \<open>int\<close>.
\<close>

subsection \<open>The tool functions\<close>

definition echo :: "string \<Rightarrow> string" where
  "echo message = ''Echo: '' @ message"

definition add :: "int \<Rightarrow> int \<Rightarrow> int" where
  "add a b = a + b"

subsection \<open>The tool host\<close>

text \<open>
  The module itself only creates the server object, registers the two functions through
  the decorator \<open>mcp.tool()\<close> and starts the server. Routing a request to a registered
  function and checking its arguments happen inside the imported \<open>fastmcp\<close> package, whose
  code is not part of the repository. That part is modelled from the specification and
  every definition concerned says so.

  A request names an operation and carries a mapping of named arguments. The argument
  values are those of the two types of the specification's data model.
\<close>

datatype val = VStr string | VInt int

type_synonym arguments = "string \<rightharpoonup> val"

type_synonym request = "string \<times> arguments"

text \<open>
  Modelled from the spec: the error payload of the framework, absent from the source.
  Section 7 names three client errors: unknown operation name, missing required argument
  and wrong argument type. Each carries the name it complains about.
\<close>

datatype client_error =
    UnknownOperation string
  | MissingArgument string
  | WrongArgumentType string

type_synonym response = "client_error + val"

text \<open>
  A registered callable together with its argument schema. The source has two signatures:
  one required \<open>str\<close> parameter returning \<open>str\<close>, and two required \<open>int\<close> parameters
  returning \<open>int\<close>. Neither function gives a parameter a default value.
\<close>

datatype callable =
    StrToStr string "string \<Rightarrow> string"
  | IntIntToInt string string "int \<Rightarrow> int \<Rightarrow> int"

text \<open>
  The server object: its name and the operation registry, a mapping from operation name
  to callable kept in registration order.
\<close>

record host =
  server_name :: string
  tools :: "(string \<times> callable) list"

text \<open>
  Modelled from the spec: the constructor and the registering decorator of the framework,
  absent from the source. A new server has an empty registry and registering adds one entry
  under the given name (section 3: the registry is a name to callable mapping; section 4.1:
  the host registers named operations).
\<close>

definition FastMCP :: "string \<Rightarrow> host" where
  "FastMCP nm = \<lparr>server_name = nm, tools = []\<rparr>"

definition tool :: "host \<Rightarrow> string \<Rightarrow> callable \<Rightarrow> host" where
  "tool h nm c = h\<lparr>tools := AList.update nm c (tools h)\<rparr>"

text \<open>
  The module-level statements of the source, in order: the server is created with the name
  \<open>"TestServer"\<close>, then \<open>echo\<close> and \<open>add\<close> are registered under their function names
  with the schemas of their signatures.
\<close>

definition mcp :: host where
  "mcp = tool (tool (FastMCP ''TestServer'')
                 ''echo'' (StrToStr ''message'' echo))
              ''add'' (IntIntToInt ''a'' ''b'' add)"

text \<open>
  Modelled from the spec: argument binding of the framework, absent from the source.
  A missing required argument and an argument of the wrong type are client errors
  (sections 4.1 and 7); otherwise the function is called with the bound arguments and its
  return value is the success payload (section 6). Arguments are checked in the order of
  the signature.
\<close>

fun invoke :: "callable \<Rightarrow> arguments \<Rightarrow> response" where
  "invoke (StrToStr p f) args =
     (case args p of
        None \<Rightarrow> Inl (MissingArgument p)
      | Some (VStr s) \<Rightarrow> Inr (VStr (f s))
      | Some (VInt _) \<Rightarrow> Inl (WrongArgumentType p))"
| "invoke (IntIntToInt p q f) args =
     (case args p of
        None \<Rightarrow> Inl (MissingArgument p)
      | Some (VStr _) \<Rightarrow> Inl (WrongArgumentType p)
      | Some (VInt x) \<Rightarrow>
          (case args q of
             None \<Rightarrow> Inl (MissingArgument q)
           | Some (VStr _) \<Rightarrow> Inl (WrongArgumentType q)
           | Some (VInt y) \<Rightarrow> Inr (VInt (f x y))))"

text \<open>
  Modelled from the spec: request dispatch of the framework, absent from the source.
  The operation is looked up by name in the registry; an unknown name is a client error
  (section 7). Handling a request returns the host together with the response, so that
  what a request does to the host is part of the model; the specification has the registry
  immutable after start (section 3), and neither tool function touches the server object.
\<close>

definition call_tool :: "host \<Rightarrow> request \<Rightarrow> host \<times> response" where
  "call_tool h r =
     (case map_of (tools h) (fst r) of
        None \<Rightarrow> (h, Inl (UnknownOperation (fst r)))
      | Some c \<Rightarrow> (h, invoke c (snd r)))"

text \<open>
  Modelled from the spec: the serving loop of the framework, absent from the source.
  Requests are handled one after the other, each by \<open>call_tool\<close> on the host the previous
  one returned, and the responses are collected in order (section 5: each incoming request
  is handled independently). Requests in flight at the same time are not modelled.
\<close>

fun serve :: "host \<Rightarrow> request list \<Rightarrow> host \<times> response list" where
  "serve h [] = (h, [])"
| "serve h (r # rs) =
     (case call_tool h r of
        (h', x) \<Rightarrow> (case serve h' rs of (h'', xs) \<Rightarrow> (h'', x # xs)))"

section \<open>Properties of the tool functions\<close>

text \<open>
  C1. For every string \<open>m\<close>, \<open>echo\<close> called with \<open>message = m\<close> returns exactly
  \<open>"Echo: "\<close> followed by \<open>m\<close>; in particular \<open>echo "hello"\<close> is \<open>"Echo: hello"\<close>.
\<close>

theorem echo_returns_prefixed_message:
  "echo m = ''Echo: '' @ m \<and> echo ''hello'' = ''Echo: hello''"
  by (simp add: echo_def)

text \<open>
  C2. For all integers \<open>a\<close> and \<open>b\<close>, \<open>add\<close> returns exactly \<open>a + b\<close>; in particular
  \<open>add 2 3 = 5\<close> and \<open>add (-1) 1 = 0\<close>.
\<close>

theorem add_returns_sum:
  "add a b = a + b \<and> add 2 3 = 5 \<and> add (- 1) 1 = 0"
  by (simp add: add_def)

text \<open>
  C8. \<open>echo\<close> loses no information: dropping the first six characters of its output
  gives the message back, and therefore two messages with the same echo are equal.
\<close>

theorem echo_strip_prefix_inverse:
  "drop 6 (echo m) = m \<and> (echo m = echo m') = (m = m')"
  by (simp add: echo_def)

text \<open>
  C9. \<open>add\<close> is commutative and has \<open>0\<close> as identity.
\<close>

theorem add_commutative_identity:
  "add a b = add b a \<and> add a 0 = a"
  by (simp add: add_def)

text \<open>
  C10. \<open>add\<close> is exact on unbounded integers. The result is the mathematical sum, each
  operand is recovered by subtracting the other one, and at no width \<open>w\<close> does the sum wrap:
  one more than the largest \<open>w\<close>-bit value is \<open>2 ^ w\<close>, one less than the smallest
  negative \<open>w\<close>-bit value is \<open>- (2 ^ w) - 1\<close>, and doubling \<open>2 ^ w\<close> gives
  \<open>2 ^ (w + 1)\<close>.
\<close>

theorem add_exact_no_wraparound:
  "add a b = a + b
   \<and> add a b - b = a
   \<and> add a b - a = b
   \<and> add (2 ^ w - 1) 1 = 2 ^ w
   \<and> add (- (2 ^ w)) (- 1) = - (2 ^ w) - 1
   \<and> add (2 ^ w) (2 ^ w) = 2 ^ (w + 1)"
  by (simp add: add_def)

section \<open>Properties of the tool host\<close>

subsection \<open>The registry and the host under request handling\<close>

lemma tools_mcp:
  "tools mcp = [(''echo'', StrToStr ''message'' echo), (''add'', IntIntToInt ''a'' ''b'' add)]"
  by (simp add: mcp_def tool_def FastMCP_def)

lemma call_tool_host: "fst (call_tool h r) = h"
  by (simp add: call_tool_def split: option.splits)

lemma serve_host: "fst (serve h rs) = h"
proof (induction rs)
  case Nil
  show ?case by simp
next
  case (Cons r rs)
  have "fst (call_tool h r) = h" by (rule call_tool_host)
  with Cons show ?case by (auto split: prod.splits)
qed

subsection \<open>Client errors and the registry\<close>

text \<open>
  C3. A request whose operation name is neither \<open>echo\<close> nor \<open>add\<close> gets a client-error
  response, the host is returned unchanged, and a valid \<open>echo\<close> or \<open>add\<close> call handled
  by the host after it still succeeds with the function's value.
\<close>

theorem unknown_operation_client_error:
  assumes "nm \<notin> {''echo'', ''add''}"
  shows "call_tool mcp (nm, args) = (mcp, Inl (UnknownOperation nm))
    \<and> call_tool (fst (call_tool mcp (nm, args))) (''echo'', [''message'' \<mapsto> VStr m])
        = (mcp, Inr (VStr (echo m)))
    \<and> call_tool (fst (call_tool mcp (nm, args))) (''add'', [''a'' \<mapsto> VInt x, ''b'' \<mapsto> VInt y])
        = (mcp, Inr (VInt (add x y)))"
proof -
  from assms have unknown: "call_tool mcp (nm, args) = (mcp, Inl (UnknownOperation nm))"
    by (simp add: call_tool_def tools_mcp)
  have "call_tool mcp (''echo'', [''message'' \<mapsto> VStr m]) = (mcp, Inr (VStr (echo m)))"
    by (simp add: call_tool_def tools_mcp)
  moreover have "call_tool mcp (''add'', [''a'' \<mapsto> VInt x, ''b'' \<mapsto> VInt y])
      = (mcp, Inr (VInt (add x y)))"
    by (simp add: call_tool_def tools_mcp)
  ultimately show ?thesis using unknown by simp
qed

text \<open>The scenario of the specification: the unknown operation \<open>multiply\<close>.\<close>

theorem unknown_operation_client_error_witness:
  "''multiply'' \<notin> {''echo'', ''add''}
   \<and> call_tool mcp (''multiply'', [''a'' \<mapsto> VInt 2, ''b'' \<mapsto> VInt 3])
        = (mcp, Inl (UnknownOperation ''multiply''))
   \<and> call_tool (fst (call_tool mcp (''multiply'', [''a'' \<mapsto> VInt 2, ''b'' \<mapsto> VInt 3])))
        (''echo'', [''message'' \<mapsto> VStr ''hello'']) = (mcp, Inr (VStr ''Echo: hello''))
   \<and> call_tool (fst (call_tool mcp (''multiply'', [''a'' \<mapsto> VInt 2, ''b'' \<mapsto> VInt 3])))
        (''add'', [''a'' \<mapsto> VInt 2, ''b'' \<mapsto> VInt 3]) = (mcp, Inr (VInt 5))"
proof -
  have h: "''multiply'' \<notin> {''echo'', ''add''}" by simp
  have e: "echo ''hello'' = ''Echo: hello''" by (simp add: echo_def)
  have a: "add 2 3 = 5" by (simp add: add_def)
  note t = unknown_operation_client_error
      [OF h, of "[''a'' \<mapsto> VInt 2, ''b'' \<mapsto> VInt 3]" "''hello''" 2 3]
  from h t [unfolded e a] show ?thesis by (rule conjI)
qed

text \<open>
  C5. An \<open>echo\<close> request whose argument mapping has no key \<open>message\<close> gets a client-error
  response, and every mapping that has a string under \<open>message\<close> is accepted, whatever the
  string and whatever else the mapping holds.
\<close>

theorem echo_requires_message:
  "(args ''message'' = None \<longrightarrow>
      call_tool mcp (''echo'', args) = (mcp, Inl (MissingArgument ''message'')))
   \<and> (args ''message'' = Some (VStr s) \<longrightarrow>
      call_tool mcp (''echo'', args) = (mcp, Inr (VStr (echo s))))"
  by (simp add: call_tool_def tools_mcp)

text \<open>The empty mapping is rejected and the empty message is accepted.\<close>

theorem echo_requires_message_witness:
  "Map.empty ''message'' = None
   \<and> call_tool mcp (''echo'', Map.empty) = (mcp, Inl (MissingArgument ''message''))
   \<and> [''message'' \<mapsto> VStr ''''] ''message'' = Some (VStr '''')
   \<and> call_tool mcp (''echo'', [''message'' \<mapsto> VStr '''']) = (mcp, Inr (VStr ''Echo: ''))"
  using echo_requires_message [of Map.empty]
    echo_requires_message [of "[''message'' \<mapsto> VStr '''']" "''''"]
  by (simp add: echo_def)

text \<open>
  C6. The registry built at start holds exactly the two entries \<open>echo\<close> and \<open>add\<close>, and
  handling a request, or any sequence of requests, leaves the host, hence the registry,
  equal to its initial value.
\<close>

theorem registry_fixed:
  "tools mcp = [(''echo'', StrToStr ''message'' echo), (''add'', IntIntToInt ''a'' ''b'' add)]
   \<and> dom (map_of (tools mcp)) = {''echo'', ''add''}
   \<and> fst (call_tool mcp r) = mcp
   \<and> fst (serve mcp rs) = mcp"
  by (auto simp add: tools_mcp call_tool_host serve_host)

end
